theory Spec2Isabelle
  imports Complex_Main "HOL-Library.Word" "HOL-Library.Log_Nat"
begin

section \<open>Video frame retrieval of \<^verbatim>\<open>lerobot/common/datasets/video_utils.py\<close>\<close>

text \<open>
  The development embeds \<^verbatim>\<open>load_from_videos\<close> and
  \<^verbatim>\<open>decode_video_frames_torchvision\<close>. Conventions of the embedding:
  \<^item> a Python exception is a value of \<open>error\<close>, returned as \<open>Inl\<close>;
  \<^item> the calls made to torchvision are recorded in an event list returned next to the
    result, so that "before a stream is opened" is a statement about that list;
  \<^item> torchvision's \<^verbatim>\<open>VideoReader\<close> is not part of the repository: it is a parameter
    \<open>vio\<close> (opening a path gives an error or a reader; seeking a reader gives an error or
    the finite list of frames that iterating the reader then yields);
  \<^item> a Python float is a real; a float32 tensor entry is a binary32 number \<open>f32\<close>:
    \<^verbatim>\<open>torch.tensor\<close> rounds to nearest, ties to even, and the distances, their row minimum
    and the tolerance test are computed on binary32 numbers as torch's CPU kernels do;
  \<^item> the \<^verbatim>\<open>log_loaded_timestamps\<close> flag only writes log lines and is left out.
\<close>

subsection \<open>Data\<close>

type_synonym buffer = "8 word list"
  \<comment> \<open>\<^verbatim>\<open>frame["data"]\<close>: a uint8 tensor, flattened\<close>

type_synonym tensor = "real list"
  \<comment> \<open>a float32 tensor, flattened; each entry is the real value of a binary32 number\<close>

record frame =
  pts :: real
  data :: buffer

datatype f32 = NaN | NegInf | Finite real | PosInf
  \<comment> \<open>a binary32 number; \<open>Finite\<close> carries the real value (the two zeros are one value: their
      sign plays no role in a subtraction followed by an absolute value)\<close>

datatype error =
    NotImplementedError string
  | ValueError string
  | IndexError
  | KeyError string
  | AssertionError "(f32 list \<times> real) option"
      \<comment> \<open>the values formatted into the assertion message, \<open>None\<close> for a bare assert\<close>
  | ResourceError
  | SeekError

datatype event =
    SetVideoBackend string
  | OpenReader string
  | Seek real
  | ReadFrame real

type_synonym reader = "real \<Rightarrow> error + frame list"
type_synonym video_io = "string \<Rightarrow> error + reader"

subsection \<open>Pixel normalisation: \<^verbatim>\<open>closest_frames.type(torch.float32) / 255\<close>\<close>

definition round_half_even :: "real \<Rightarrow> int" where
  "round_half_even x =
     (let n = \<lfloor>x\<rfloor>; r = x - of_int n
      in if r < 1 / 2 then n
         else if 1 / 2 < r then n + 1
         else if even n then n else n + 1)"

definition f32_div :: "nat \<Rightarrow> nat \<Rightarrow> real" where
  \<comment> \<open>binary32 division \<open>a / b\<close> of two integers below \<open>2 ^ 24\<close> (exact as binary32), \<open>b > 0\<close>:
      the quotient rounded to a 24-bit significand, ties to even. \<open>e\<close> is the binary
      exponent of the exact quotient.\<close>
  "f32_div a b =
     (if a = 0 then 0
      else let k = int (floorlog 2 a) - int (floorlog 2 b);
               e = (if real b * 2 powi k \<le> real a then k else k - 1);
               m = round_half_even (real a / real b * 2 powi (23 - e))
           in of_int m * 2 powi (e - 23))"

definition normalize_px :: "8 word \<Rightarrow> real" where
  "normalize_px b = f32_div (unat b) 255"

definition normalize :: "buffer \<Rightarrow> tensor" where
  "normalize buf = map normalize_px buf"

subsection \<open>binary32 arithmetic on the timestamps\<close>

function bit_length :: "int \<Rightarrow> int" where
  \<comment> \<open>the number of binary digits of a positive integer\<close>
  "bit_length n = (if n \<le> 0 then 0 else 1 + bit_length (n div 2))"
  by auto
termination
  by (relation "measure nat") auto

declare bit_length.simps [simp del]

definition f32_exponent :: "real \<Rightarrow> int" where
  \<comment> \<open>for \<open>a > 0\<close>: the \<open>e\<close> with \<open>2\<^sup>e \<le> a < 2\<^sup>e\<^sup>+\<^sup>1\<close>, kept between \<open>-126\<close> (the subnormal range)
      and \<open>127\<close>\<close>
  "f32_exponent a =
     (if 1 \<le> a then min 127 (bit_length \<lfloor>a\<rfloor> - 1)
      else max (- 126) (- bit_length (\<lceil>1 / a\<rceil> - 1)))"

definition f32_of_real :: "real \<Rightarrow> f32" where
  \<comment> \<open>conversion of a Python float to binary32, as \<^verbatim>\<open>torch.tensor\<close> does: the nearest multiple
      of the unit in the last place \<open>2\<^sup>e\<^sup>-\<^sup>2\<^sup>3\<close>, ties to even, and an infinity from \<open>2\<^sup>1\<^sup>2\<^sup>8\<close> on\<close>
  "f32_of_real x =
     (if x = 0 then Finite 0
      else let a = \<bar>x\<bar>;
               e = f32_exponent a;
               ulp = 2 powi (e - 23);
               r = of_int (round_half_even (a / ulp)) * ulp
           in if 2 powi 128 \<le> r then (if 0 < x then PosInf else NegInf)
              else Finite (if 0 < x then r else - r))"

fun f32_sub :: "f32 \<Rightarrow> f32 \<Rightarrow> f32" where
  "f32_sub (Finite a) (Finite b) = f32_of_real (a - b)"
| "f32_sub NaN y = NaN"
| "f32_sub x NaN = NaN"
| "f32_sub PosInf PosInf = NaN"
| "f32_sub NegInf NegInf = NaN"
| "f32_sub PosInf y = PosInf"
| "f32_sub NegInf y = NegInf"
| "f32_sub (Finite a) PosInf = NegInf"
| "f32_sub (Finite a) NegInf = PosInf"

fun f32_abs :: "f32 \<Rightarrow> f32" where
  "f32_abs (Finite a) = Finite \<bar>a\<bar>"
| "f32_abs NegInf = PosInf"
| "f32_abs PosInf = PosInf"
| "f32_abs NaN = NaN"

fun f32_lt :: "f32 \<Rightarrow> f32 \<Rightarrow> bool" where
  \<comment> \<open>the IEEE comparison \<open><\<close>: false as soon as one side is not a number\<close>
  "f32_lt (Finite a) (Finite b) = (a < b)"
| "f32_lt NaN y = False"
| "f32_lt x NaN = False"
| "f32_lt PosInf y = False"
| "f32_lt x NegInf = False"
| "f32_lt NegInf y = True"
| "f32_lt (Finite a) PosInf = True"

definition f32_ge :: "f32 \<Rightarrow> f32 \<Rightarrow> bool" where
  \<comment> \<open>the IEEE comparison \<open>\<ge>\<close>\<close>
  "f32_ge x y \<longleftrightarrow> x \<noteq> NaN \<and> y \<noteq> NaN \<and> \<not> f32_lt x y"

definition to_tensor :: "real list \<Rightarrow> f32 list" where
  \<comment> \<open>\<^verbatim>\<open>torch.tensor(xs)\<close> on a list of Python floats: a float32 tensor\<close>
  "to_tensor xs = map f32_of_real xs"

subsection \<open>\<^verbatim>\<open>decode_video_frames_torchvision\<close>\<close>

fun scan_frames :: "real \<Rightarrow> frame list \<Rightarrow> buffer list \<times> real list \<Rightarrow> buffer list \<times> real list" where
  \<comment> \<open>\<^verbatim>\<open>for frame in reader: ... if current_ts >= last_ts: break\<close>\<close>
  "scan_frames last_ts [] (loaded_frames, loaded_ts) = (loaded_frames, loaded_ts)"
| "scan_frames last_ts (frame # rest) (loaded_frames, loaded_ts) =
     (let current_ts = pts frame;
          loaded_frames' = loaded_frames @ [data frame];
          loaded_ts' = loaded_ts @ [current_ts]
      in if current_ts \<ge> last_ts then (loaded_frames', loaded_ts')
         else scan_frames last_ts rest (loaded_frames', loaded_ts'))"

definition cdist1 :: "f32 list \<Rightarrow> f32 list \<Rightarrow> f32 list list" where
  \<comment> \<open>\<^verbatim>\<open>torch.cdist(query_ts[:, None], loaded_ts[:, None], p=1)\<close>: for points of one
      coordinate the kernel returns \<^verbatim>\<open>0 + abs(a - b)\<close>, computed in binary32\<close>
  "cdist1 query_ts loaded_ts = map (\<lambda>q. map (\<lambda>t. f32_abs (f32_sub q t)) loaded_ts) query_ts"

fun min_scan :: "f32 list \<Rightarrow> nat \<Rightarrow> f32 \<times> nat \<Rightarrow> f32 \<times> nat" where
  \<comment> \<open>the loop of torch's CPU kernel for \<^verbatim>\<open>min\<close> along a dimension: a value replaces the
      running minimum unless it is \<open>\<ge>\<close> it, and the loop ends at the first NaN\<close>
  "min_scan [] i (min_number, index) = (min_number, index)"
| "min_scan (v # rest) i (min_number, index) =
     (if \<not> f32_ge v min_number
      then (if v = NaN then (v, i) else min_scan rest (Suc i) (v, i))
      else min_scan rest (Suc i) (min_number, index))"

definition min_row :: "f32 list \<Rightarrow> error + f32 \<times> nat" where
  \<comment> \<open>one row of \<^verbatim>\<open>dist.min(1)\<close>: the loop starts from the first entry and runs over the
      whole row; torch raises IndexError when the reduced dimension is empty\<close>
  "min_row ds = (case ds of [] \<Rightarrow> Inl IndexError | d # rest \<Rightarrow> Inr (min_scan ds 0 (d, 0)))"

fun min_dim1 :: "f32 list list \<Rightarrow> error + (f32 \<times> nat) list" where
  "min_dim1 [] = Inr []"
| "min_dim1 (row # rows) =
     (case min_row row of
        Inl e \<Rightarrow> Inl e
      | Inr mi \<Rightarrow> (case min_dim1 rows of Inl e \<Rightarrow> Inl e | Inr mis \<Rightarrow> Inr (mi # mis)))"

definition match_frames ::
  "real list \<Rightarrow> real \<Rightarrow> buffer list \<Rightarrow> real list \<Rightarrow> error + tensor list" where
  \<comment> \<open>lines 98 to 124: distances, tolerance assertion, selection, normalisation;
      \<open>min_v\<close> and \<open>argmin_v\<close> are the source's \<^verbatim>\<open>min_\<close> and \<^verbatim>\<open>argmin_\<close>; the comparison
      \<^verbatim>\<open>min_ < tolerance_s\<close> of a float32 tensor with a Python float is made in binary32;
      the assertion message carries \<^verbatim>\<open>min_[~is_within_tol]\<close> and \<^verbatim>\<open>tolerance_s\<close>\<close>
  "match_frames timestamps tolerance_s loaded_frames loaded_ts =
     (let query_ts = to_tensor timestamps;
          loaded_ts = to_tensor loaded_ts
      in case min_dim1 (cdist1 query_ts loaded_ts) of
           Inl e \<Rightarrow> Inl e
         | Inr mins \<Rightarrow>
             let min_v = map fst mins;
                 argmin_v = map snd mins;
                 is_within_tol = (\<lambda>m. f32_lt m (f32_of_real tolerance_s))
             in if \<not> list_all is_within_tol min_v
                then Inl (AssertionError (Some (filter (\<lambda>m. \<not> is_within_tol m) min_v, tolerance_s)))
                else let closest_frames = map (\<lambda>idx. loaded_frames ! idx) argmin_v;
                         closest_frames = map normalize closest_frames
                     in if length timestamps = length closest_frames then Inr closest_frames
                        else Inl (AssertionError None))"

definition decode_video_frames_torchvision ::
  "video_io \<Rightarrow> string \<Rightarrow> real list \<Rightarrow> real \<Rightarrow> string \<Rightarrow> event list \<times> (error + tensor list)" where
  "decode_video_frames_torchvision vio video_path timestamps tolerance_s device =
     (if device = ''cpu'' then
        (let opened = [SetVideoBackend ''pyav'', OpenReader video_path]
         in case vio video_path of
              Inl e \<Rightarrow> (opened, Inl e)
            | Inr reader \<Rightarrow>
                (case timestamps of
                   [] \<Rightarrow> (opened, Inl IndexError)
                 | first_ts # _ \<Rightarrow>
                     let last_ts = last timestamps
                     in case reader first_ts of
                          Inl e \<Rightarrow> (opened @ [Seek first_ts], Inl e)
                        | Inr frames \<Rightarrow>
                            (case scan_frames last_ts frames ([], []) of
                               (loaded_frames, loaded_ts) \<Rightarrow>
                                 (opened @ [Seek first_ts] @ map ReadFrame loaded_ts,
                                  match_frames timestamps tolerance_s loaded_frames loaded_ts))))
      else if device = ''cuda'' then ([], Inl (NotImplementedError []))
      else ([], Inl (ValueError device)))"

subsection \<open>Paths: the part of \<^verbatim>\<open>pathlib.PurePosixPath\<close> that \<^verbatim>\<open>load_from_videos\<close> uses\<close>

text \<open>
  A path is its root and its components. The root of a string is \<^verbatim>\<open>//\<close> when the string
  starts with exactly two slashes, \<^verbatim>\<open>/\<close> when it starts with one or with three and more,
  and empty otherwise. The components are the pieces between slashes, without the empty
  ones and without \<^verbatim>\<open>.\<close>; \<^verbatim>\<open>..\<close> is kept, as pathlib is purely lexical.
\<close>

datatype path_root = NoRoot | Slash | TwoSlashes

record posix_path =
  root :: path_root
  parts :: "string list"

fun split_slash :: "string \<Rightarrow> string list" where
  "split_slash [] = [[]]"
| "split_slash (c # cs) =
     (if c = CHR ''/'' then [] # split_slash cs
      else (case split_slash cs of [] \<Rightarrow> [[c]] | w # ws \<Rightarrow> (c # w) # ws))"

fun join_slash :: "string list \<Rightarrow> string" where
  "join_slash [] = []"
| "join_slash [w] = w"
| "join_slash (w # ws) = w @ CHR ''/'' # join_slash ws"

definition splitroot :: "string \<Rightarrow> path_root" where
  "splitroot s =
     (let slashes = length (takeWhile (\<lambda>c. c = CHR ''/'') s)
      in if slashes = 0 then NoRoot else if slashes = 2 then TwoSlashes else Slash)"

definition Path :: "string \<Rightarrow> posix_path" where
  "Path s = \<lparr>root = splitroot s,
            parts = filter (\<lambda>w. w \<noteq> [] \<and> w \<noteq> ''.'') (split_slash s)\<rparr>"

definition parent :: "posix_path \<Rightarrow> posix_path" where
  "parent p = p\<lparr>parts := butlast (parts p)\<rparr>"

definition joinpath :: "posix_path \<Rightarrow> string \<Rightarrow> posix_path" where
  \<comment> \<open>\<^verbatim>\<open>p / s\<close>: a rooted right operand replaces the left one\<close>
  "joinpath p s =
     (let q = Path s
      in if root q \<noteq> NoRoot then q else \<lparr>root = root p, parts = parts p @ parts q\<rparr>)"

definition path_str :: "posix_path \<Rightarrow> string" where
  "path_str p =
     (case root p of
        NoRoot \<Rightarrow> (if parts p = [] then ''.'' else join_slash (parts p))
      | Slash \<Rightarrow> CHR ''/'' # join_slash (parts p)
      | TwoSlashes \<Rightarrow> ''//'' @ join_slash (parts p))"

subsection \<open>\<^verbatim>\<open>load_from_videos\<close>\<close>

record video_frame =
  path :: string
  timestamp :: real

datatype item_value =
    FrameRef video_frame
  | FrameRefs "video_frame list"
  | Tensor tensor
  | Stacked "tensor list"

type_synonym item = "string \<rightharpoonup> item_value"

definition load_key ::
  "video_io \<Rightarrow> posix_path \<Rightarrow> real \<Rightarrow> string \<Rightarrow> item \<Rightarrow> event list \<times> (error + item)" where
  \<comment> \<open>the body of \<^verbatim>\<open>for key in video_frame_keys\<close>; \<open>length (remdups paths)\<close> is
      \<^verbatim>\<open>len(set(paths))\<close>; a value that is already a tensor cannot be indexed by
      \<^verbatim>\<open>"timestamp"\<close>\<close>
  "load_key vio data_dir tolerance_s key item =
     (case item key of
        None \<Rightarrow> ([], Inl (KeyError key))
      | Some (FrameRefs refs) \<Rightarrow>
          let timestamps = map timestamp refs;
              paths = map path refs
          in if length (remdups paths) = 1
             then ([], Inl (NotImplementedError ''All video paths are expected to be the same for now.''))
             else (case paths of
                     [] \<Rightarrow> ([], Inl IndexError)
                   | p0 # _ \<Rightarrow>
                       let video_path = joinpath data_dir p0
                       in case decode_video_frames_torchvision vio (path_str video_path)
                                 timestamps tolerance_s ''cpu'' of
                            (tr, Inl e) \<Rightarrow> (tr, Inl e)
                          | (tr, Inr frames) \<Rightarrow> (tr, Inr (item(key \<mapsto> Stacked frames))))
      | Some (FrameRef ref) \<Rightarrow>
          let timestamps = [timestamp ref];
              video_path = joinpath data_dir (path ref)
          in (case decode_video_frames_torchvision vio (path_str video_path)
                     timestamps tolerance_s ''cpu'' of
                (tr, Inl e) \<Rightarrow> (tr, Inl e)
              | (tr, Inr frames) \<Rightarrow>
                  (case frames of
                     [] \<Rightarrow> (tr, Inl IndexError)
                   | f0 # _ \<Rightarrow> (tr, Inr (item(key \<mapsto> Tensor f0)))))
      | Some _ \<Rightarrow> ([], Inl IndexError))"

fun load_keys ::
  "video_io \<Rightarrow> posix_path \<Rightarrow> real \<Rightarrow> string list \<Rightarrow> item \<Rightarrow> event list \<times> (error + item)" where
  "load_keys vio data_dir tolerance_s [] item = ([], Inr item)"
| "load_keys vio data_dir tolerance_s (key # keys) item =
     (case load_key vio data_dir tolerance_s key item of
        (tr, Inl e) \<Rightarrow> (tr, Inl e)
      | (tr, Inr item') \<Rightarrow>
          (case load_keys vio data_dir tolerance_s keys item' of (tr', r) \<Rightarrow> (tr @ tr', r)))"

definition load_from_videos ::
  "video_io \<Rightarrow> item \<Rightarrow> string list \<Rightarrow> posix_path \<Rightarrow> real \<Rightarrow> event list \<times> (error + item)" where
  "load_from_videos vio item video_frame_keys videos_dir tolerance_s =
     (let data_dir = parent videos_dir
      in load_keys vio data_dir tolerance_s video_frame_keys item)"

subsection \<open>A video reader after the specification\<close>

text \<open>
  Modelled from the spec: torchvision's \<^verbatim>\<open>VideoReader\<close> (open, seek, iterate) is missing
  from the sources. Section 4.1 of the specification: opening fails with ResourceError when
  the file is missing; seeking repositions to the nearest key frame at or before the
  timestamp and fails with SeekError when the timestamp is outside the stream bounds;
  iteration then yields the frames from that key frame on, in presentation order.
\<close>

record video =
  duration :: real
  packets :: "(bool \<times> frame) list"
    \<comment> \<open>the frames in presentation order, each with its key-frame flag\<close>

fun from_key_frame :: "real \<Rightarrow> (bool \<times> frame) list \<Rightarrow> (bool \<times> frame) list" where
  \<comment> \<open>Modelled from the spec: the packets from the last key frame at or before \<open>t\<close> on
      (from the start when there is none)\<close>
  "from_key_frame t [] = []"
| "from_key_frame t (p # ps) =
     (if list_ex (\<lambda>q. fst q \<and> pts (snd q) \<le> t) ps then from_key_frame t ps else p # ps)"

definition seek_video :: "video \<Rightarrow> reader" where
  \<comment> \<open>Modelled from the spec: \<^verbatim>\<open>VideoReader.seek\<close> followed by iteration (section 4.1);
      the stream bounds are \<open>0\<close> and \<open>duration v\<close>\<close>
  "seek_video v t =
     (if t < 0 \<or> duration v < t then Inl SeekError
      else Inr (map snd (from_key_frame t (packets v))))"

definition open_videos :: "(string \<rightharpoonup> video) \<Rightarrow> video_io" where
  \<comment> \<open>Modelled from the spec: \<^verbatim>\<open>torchvision.io.VideoReader(video_path, "video")\<close> on a
      file system (section 4.1)\<close>
  "open_videos files p = (case files p of None \<Rightarrow> Inl ResourceError | Some v \<Rightarrow> Inr (seek_video v))"

definition demo_video :: video where
  \<comment> \<open>four frames at 2 frames per second, two pixels each, one key frame at the start\<close>
  "demo_video =
     \<lparr>duration = 2,
      packets = [(True, \<lparr>pts = 0, data = [0, 255]\<rparr>),
                 (False, \<lparr>pts = 1 / 2, data = [10, 20]\<rparr>),
                 (False, \<lparr>pts = 1, data = [30, 40]\<rparr>),
                 (False, \<lparr>pts = 3 / 2, data = [50, 60]\<rparr>)]\<rparr>"

definition demo_path :: string where
  "demo_path = ''data/videos/episode_0.mp4''"

definition demo_files :: "string \<rightharpoonup> video" where
  "demo_files = [demo_path \<mapsto> demo_video]"

definition demo_frames :: "frame list" where
  "demo_frames = map snd (packets demo_video)"

subsection \<open>Example items\<close>

definition demo_videos_dir :: posix_path where
  "demo_videos_dir = Path ''data/videos''"

definition demo_item_same :: item where
  \<comment> \<open>two references into the same video\<close>
  "demo_item_same =
     [''observation.image'' \<mapsto>
        FrameRefs [\<lparr>path = ''videos/episode_0.mp4'', timestamp = 0\<rparr>,
                   \<lparr>path = ''videos/episode_0.mp4'', timestamp = 1 / 2\<rparr>]]"

definition demo_item_mixed :: item where
  \<comment> \<open>two references into different videos\<close>
  "demo_item_mixed =
     [''observation.image'' \<mapsto>
        FrameRefs [\<lparr>path = ''videos/episode_0.mp4'', timestamp = 0\<rparr>,
                   \<lparr>path = ''videos/episode_1.mp4'', timestamp = 1 / 2\<rparr>]]"

definition demo_item_single :: item where
  \<comment> \<open>a sequence of one reference\<close>
  "demo_item_single =
     [''observation.image'' \<mapsto>
        FrameRefs [\<lparr>path = ''videos/episode_0.mp4'', timestamp = 1 / 2\<rparr>]]"

definition demo_item_scalar :: item where
  \<comment> \<open>the same reference as a scalar\<close>
  "demo_item_scalar =
     [''observation.image'' \<mapsto> FrameRef \<lparr>path = ''videos/episode_0.mp4'', timestamp = 1 / 2\<rparr>]"

subsection \<open>Specification-side notions\<close>

definition scan_window :: "real \<Rightarrow> frame list \<Rightarrow> frame list" where
  \<comment> \<open>the frames before the first one at or after \<open>last_ts\<close>, and that one\<close>
  "scan_window last_ts fs =
     takeWhile (\<lambda>f. pts f < last_ts) fs @ take 1 (dropWhile (\<lambda>f. pts f < last_ts) fs)"

definition dist32 :: "real \<Rightarrow> real \<Rightarrow> f32" where
  \<comment> \<open>the L1 distance between a request and a timestamp as binary32 arithmetic gives it:
      both are rounded to binary32 and so is their difference\<close>
  "dist32 q t = f32_abs (f32_sub (f32_of_real q) (f32_of_real t))"

definition f32_before :: "f32 \<Rightarrow> f32 \<Rightarrow> bool" where
  \<comment> \<open>the order in which a minimum is taken: NaN before every number, numbers by \<open><\<close>\<close>
  "f32_before x y \<longleftrightarrow> (x = NaN \<and> y \<noteq> NaN) \<or> f32_lt x y"

definition least32 :: "f32 list \<Rightarrow> f32" where
  \<comment> \<open>the least entry of a non-empty list in that order\<close>
  "least32 ds = fold (\<lambda>d m. if f32_before d m then d else m) (tl ds) (hd ds)"

definition min_dist32 :: "real \<Rightarrow> real list \<Rightarrow> f32" where
  \<comment> \<open>the least binary32 distance from a request to a loaded timestamp\<close>
  "min_dist32 q loaded_ts = least32 (map (dist32 q) loaded_ts)"

definition first_min :: "f32 list \<Rightarrow> f32 \<Rightarrow> nat \<Rightarrow> bool" where
  \<comment> \<open>\<open>j\<close> is the first index at which \<open>ds\<close> takes its least entry \<open>m\<close>\<close>
  "first_min ds m j \<longleftrightarrow>
     j < length ds \<and> ds ! j = m \<and> (\<forall>k < length ds. \<not> f32_before (ds ! k) m) \<and>
     (\<forall>k < j. f32_before m (ds ! k))"

section \<open>Auxiliary facts\<close>

subsection \<open>The scan loop and the row minimum\<close>

lemma scan_frames_acc:
  "scan_frames last_ts fs (lf, lt) =
     (lf @ map data (scan_window last_ts fs), lt @ map pts (scan_window last_ts fs))"
  by (induction fs arbitrary: lf lt) (auto simp: scan_window_def Let_def)

lemma f32_before_irrefl: "\<not> f32_before x x"
  by (cases x) (simp_all add: f32_before_def)

lemma f32_before_trans: "f32_before x y \<Longrightarrow> f32_before y z \<Longrightarrow> f32_before x z"
  by (cases x; cases y; cases z) (simp_all add: f32_before_def)

lemma f32_before_asym: "f32_before x y \<Longrightarrow> \<not> f32_before y x"
  using f32_before_trans [of x y x] f32_before_irrefl [of x] by blast

lemma f32_before_total: "x \<noteq> y \<Longrightarrow> f32_before x y \<or> f32_before y x"
  by (cases x; cases y) (auto simp: f32_before_def)

lemma f32_before_NaN: "\<not> f32_before x NaN" "y \<noteq> NaN \<Longrightarrow> f32_before NaN y"
  by (cases x; simp add: f32_before_def) (simp add: f32_before_def)

lemma not_f32_ge_iff: "m \<noteq> NaN \<Longrightarrow> \<not> f32_ge v m \<longleftrightarrow> f32_before v m"
  by (cases v; cases m) (auto simp: f32_ge_def f32_before_def)

lemma f32_ge_refl: "d \<noteq> NaN \<Longrightarrow> f32_ge d d"
  by (cases d) (simp_all add: f32_ge_def)

lemma first_min_no_NaN:
  "first_min xs m j \<Longrightarrow> m \<noteq> NaN \<Longrightarrow> k < length xs \<Longrightarrow> xs ! k \<noteq> NaN"
  unfolding first_min_def using f32_before_NaN(2) by metis

lemma min_scan_first_min:
  "first_min xs m j \<Longrightarrow> m \<noteq> NaN \<Longrightarrow> i = length xs \<Longrightarrow>
     first_min (xs @ ds) (fst (min_scan ds i (m, j))) (snd (min_scan ds i (m, j)))"
proof (induction ds arbitrary: xs m j i)
  case Nil
  then show ?case by simp
next
  case (Cons v rest)
  show ?case
  proof (cases "f32_before v m")
    case True
    show ?thesis
    proof (cases "v = NaN")
      case nan: True
      have "first_min (xs @ v # rest) NaN i"
        unfolding first_min_def
      proof (intro conjI allI impI)
        show "i < length (xs @ v # rest)" using Cons.prems by simp
        show "(xs @ v # rest) ! i = NaN" using Cons.prems nan by simp
        show "\<not> f32_before ((xs @ v # rest) ! k) NaN" for k by (rule f32_before_NaN(1))
        show "f32_before NaN ((xs @ v # rest) ! k)" if "k < i" for k
          using that Cons.prems first_min_no_NaN [OF Cons.prems(1,2), of k]
          by (simp add: nth_append f32_before_NaN(2))
      qed
      with nan True Cons.prems show ?thesis by (simp add: not_f32_ge_iff)
    next
      case False
      have below: "f32_before v (xs ! k)" if "k < length xs" for k
      proof (cases "xs ! k = m")
        case True
        with \<open>f32_before v m\<close> show ?thesis by simp
      next
        case False
        from Cons.prems(1) that have "\<not> f32_before (xs ! k) m"
          by (simp add: first_min_def)
        with False f32_before_total [of "xs ! k" m] have "f32_before m (xs ! k)" by blast
        with \<open>f32_before v m\<close> show ?thesis by (rule f32_before_trans)
      qed
      have "first_min (xs @ [v]) v i"
        using Cons.prems(3) below
        unfolding first_min_def
        by (auto simp: nth_append less_Suc_eq f32_before_irrefl dest: f32_before_asym)
      from Cons.IH [OF this False, of "Suc i"] Cons.prems True False
      show ?thesis by (simp add: not_f32_ge_iff)
    qed
  next
    case False
    have "first_min (xs @ [v]) m j"
      using Cons.prems False
      unfolding first_min_def by (auto simp: nth_append less_Suc_eq)
    from Cons.IH [OF this Cons.prems(2), of "Suc i"] Cons.prems False
    show ?thesis by (simp add: not_f32_ge_iff)
  qed
qed

lemma min_row_first_min:
  assumes "ds \<noteq> []"
  shows "\<exists>m j. min_row ds = Inr (m, j) \<and> first_min ds m j"
proof -
  from assms obtain d rest where ds: "ds = d # rest" by (cases ds) auto
  show ?thesis
  proof (cases "d = NaN")
    case True
    have "first_min (d # rest) NaN 0"
      using True by (simp add: first_min_def f32_before_NaN(1))
    with True ds show ?thesis by (simp add: min_row_def f32_ge_def)
  next
    case False
    have "first_min [d] d 0" by (simp add: first_min_def f32_before_irrefl)
    from min_scan_first_min [OF this False, of 1 rest] False ds
    show ?thesis by (simp add: min_row_def f32_ge_refl) (metis prod.collapse)
  qed
qed

lemma fold_least:
  "fold (\<lambda>d m. if f32_before d m then d else m) ds a \<in> set (a # ds) \<and>
   (\<forall>x \<in> set (a # ds). \<not> f32_before x (fold (\<lambda>d m. if f32_before d m then d else m) ds a))"
proof (induction ds arbitrary: a)
  case Nil
  then show ?case by (simp add: f32_before_irrefl)
next
  case (Cons d ds)
  let ?f = "\<lambda>d m. if f32_before d m then d else m"
  let ?r = "fold ?f ds (?f d a)"
  from Cons.IH [of "?f d a"]
  have mem: "?r \<in> set (?f d a # ds)" and least: "\<forall>x \<in> set (?f d a # ds). \<not> f32_before x ?r"
    by blast+
  have a: "\<not> f32_before a ?r" and d: "\<not> f32_before d ?r"
  proof -
    show "\<not> f32_before a ?r"
    proof (cases "f32_before d a")
      case True
      with least have "\<not> f32_before d ?r" by simp
      with True f32_before_trans [of d a ?r] show ?thesis by blast
    next
      case False
      with least show ?thesis by simp
    qed
    show "\<not> f32_before d ?r"
    proof (cases "f32_before d a")
      case True
      with least show ?thesis by simp
    next
      case False
      with least have na: "\<not> f32_before a ?r" by simp
      show ?thesis
      proof
        assume dr: "f32_before d ?r"
        show False
        proof (cases "a = ?r")
          case True
          with dr False show False by simp
        next
          case ne: False
          with na f32_before_total [of a ?r] have "f32_before ?r a" by blast
          with dr have "f32_before d a" by (rule f32_before_trans)
          with False show False by simp
        qed
      qed
    qed
  qed
  from mem a d least show ?case by (auto split: if_splits)
qed

lemma first_min_least32: "first_min ds m j \<Longrightarrow> m = least32 ds"
proof -
  assume f: "first_min ds m j"
  then have ne: "ds \<noteq> []" by (auto simp: first_min_def)
  then have ds: "ds = hd ds # tl ds" by simp
  from fold_least [of "tl ds" "hd ds"] ds
  have l: "least32 ds \<in> set ds" "\<forall>x \<in> set ds. \<not> f32_before x (least32 ds)"
    by (simp_all add: least32_def)
  from f have m: "m \<in> set ds" "\<forall>x \<in> set ds. \<not> f32_before x m"
    by (auto simp: first_min_def in_set_conv_nth)
  from l m f32_before_total [of m "least32 ds"] show ?thesis by blast
qed

lemma cdist1_rows:
  "cdist1 (to_tensor ts) (to_tensor loaded_ts) = map (\<lambda>q. map (dist32 q) loaded_ts) ts"
  by (simp add: cdist1_def to_tensor_def dist32_def o_def)

lemma min_dim1_rows:
  assumes "loaded_ts \<noteq> []"
  shows "\<exists>mins. min_dim1 (map (\<lambda>q. map (dist32 q) loaded_ts) ts) = Inr mins \<and>
           length mins = length ts \<and>
           (\<forall>i < length ts.
              first_min (map (dist32 (ts ! i)) loaded_ts) (fst (mins ! i)) (snd (mins ! i)))"
proof (induction ts)
  case Nil
  then show ?case by simp
next
  case (Cons q qs)
  then obtain mins where mins: "min_dim1 (map (\<lambda>q. map (dist32 q) loaded_ts) qs) = Inr mins"
    "length mins = length qs"
    "\<forall>i < length qs. first_min (map (dist32 (qs ! i)) loaded_ts) (fst (mins ! i)) (snd (mins ! i))"
    by blast
  from min_row_first_min [of "map (dist32 q) loaded_ts"] assms
  obtain m j where mj: "min_row (map (dist32 q) loaded_ts) = Inr (m, j)"
    "first_min (map (dist32 q) loaded_ts) m j"
    by auto
  have "min_dim1 (map (\<lambda>q. map (dist32 q) loaded_ts) (q # qs)) = Inr ((m, j) # mins)"
    using mins(1) mj(1) by simp
  moreover have "\<forall>i < length (q # qs).
      first_min (map (dist32 ((q # qs) ! i)) loaded_ts)
        (fst (((m, j) # mins) ! i)) (snd (((m, j) # mins) ! i))"
    using mins(3) mj(2) by (auto simp: nth_Cons split: nat.splits)
  ultimately show ?case using mins(2) by auto
qed

lemma min_dim1_empty_row:
  "ts \<noteq> [] \<Longrightarrow> min_dim1 (cdist1 (to_tensor ts) (to_tensor [])) = Inl IndexError"
  by (cases ts) (simp_all add: cdist1_def to_tensor_def min_row_def)

lemma first_min_min_dist32:
  "first_min (map (dist32 q) loaded_ts) m j \<Longrightarrow> m = min_dist32 q loaded_ts"
  using first_min_least32 [of "map (dist32 q) loaded_ts" m j] by (simp add: min_dist32_def)

lemma match_frames_cases:
  assumes "loaded_ts \<noteq> []"
  shows "\<exists>idxs. length idxs = length ts \<and>
           (\<forall>i < length ts. first_min (map (dist32 (ts ! i)) loaded_ts)
                                (min_dist32 (ts ! i) loaded_ts) (idxs ! i)) \<and>
           match_frames ts tol loaded_frames loaded_ts =
             (if \<forall>q \<in> set ts. f32_lt (min_dist32 q loaded_ts) (f32_of_real tol)
              then Inr (map (\<lambda>j. normalize (loaded_frames ! j)) idxs)
              else Inl (AssertionError
                     (Some (filter (\<lambda>m. \<not> f32_lt m (f32_of_real tol))
                              (map (\<lambda>q. min_dist32 q loaded_ts) ts), tol))))"
proof -
  from min_dim1_rows [OF assms, of ts]
  obtain mins where mins: "min_dim1 (map (\<lambda>q. map (dist32 q) loaded_ts) ts) = Inr mins"
    "length mins = length ts"
    "\<forall>i < length ts. first_min (map (dist32 (ts ! i)) loaded_ts) (fst (mins ! i)) (snd (mins ! i))"
    by blast
  have fst_eq: "map fst mins = map (\<lambda>q. min_dist32 q loaded_ts) ts"
    using mins(2,3) by (auto simp: list_eq_iff_nth_eq dest!: first_min_min_dist32)
  have all_iff: "list_all (\<lambda>m. f32_lt m (f32_of_real tol)) (map fst mins) \<longleftrightarrow>
      (\<forall>q \<in> set ts. f32_lt (min_dist32 q loaded_ts) (f32_of_real tol))"
    unfolding fst_eq by (simp add: list_all_iff)
  have fm: "\<forall>i < length ts. first_min (map (dist32 (ts ! i)) loaded_ts)
                                (min_dist32 (ts ! i) loaded_ts) (map snd mins ! i)"
  proof (intro allI impI)
    fix i assume i: "i < length ts"
    with mins(3) have f: "first_min (map (dist32 (ts ! i)) loaded_ts) (fst (mins ! i)) (snd (mins ! i))"
      by blast
    from first_min_min_dist32 [OF f] f i mins(2)
    show "first_min (map (dist32 (ts ! i)) loaded_ts) (min_dist32 (ts ! i) loaded_ts) (map snd mins ! i)"
      by simp
  qed
  have "match_frames ts tol loaded_frames loaded_ts =
             (if \<forall>q \<in> set ts. f32_lt (min_dist32 q loaded_ts) (f32_of_real tol)
              then Inr (map (\<lambda>j. normalize (loaded_frames ! j)) (map snd mins))
              else Inl (AssertionError
                     (Some (filter (\<lambda>m. \<not> f32_lt m (f32_of_real tol))
                              (map (\<lambda>q. min_dist32 q loaded_ts) ts), tol))))"
    using mins(1,2) all_iff fst_eq
    by (simp add: match_frames_def Let_def cdist1_rows)
  with fm mins(2) show ?thesis
    by (intro exI [of _ "map snd mins"]) simp
qed

lemma scan_frames_start:
  "scan_frames last_ts fs ([], []) =
     (map data (scan_window last_ts fs), map pts (scan_window last_ts fs))"
  using scan_frames_acc [of last_ts fs "[]" "[]"] by simp

lemma scan_window_Nil_iff: "scan_window last_ts fs = [] \<longleftrightarrow> fs = []"
  by (cases fs) (auto simp: scan_window_def)

lemma decode_cpu_seeked:
  assumes "vio video_path = Inr reader" "reader first_ts = Inr fs"
  shows "decode_video_frames_torchvision vio video_path (first_ts # rest) tol ''cpu'' =
      ([SetVideoBackend ''pyav'', OpenReader video_path, Seek first_ts]
         @ map ReadFrame (map pts (scan_window (last (first_ts # rest)) fs)),
       match_frames (first_ts # rest) tol
         (map data (scan_window (last (first_ts # rest)) fs))
         (map pts (scan_window (last (first_ts # rest)) fs)))"
  using assms by (simp add: decode_video_frames_torchvision_def scan_frames_start Let_def)

lemma decode_seek_failed:
  assumes "vio video_path = Inr reader" "reader first_ts = Inl e"
  shows "decode_video_frames_torchvision vio video_path (first_ts # rest) tol ''cpu'' =
      ([SetVideoBackend ''pyav'', OpenReader video_path, Seek first_ts], Inl e)"
  using assms by (simp add: decode_video_frames_torchvision_def)

lemma first_min_selected:
  assumes "first_min ds m j" and "f32_lt m t"
  shows "j < length ds \<and> (\<forall>k < length ds. f32_ge (ds ! k) (ds ! j)) \<and>
         (\<forall>k < j. f32_lt (ds ! j) (ds ! k))"
proof -
  from assms(2) have m: "m \<noteq> NaN" by (cases m) auto
  from assms(1) have j: "j < length ds" "ds ! j = m" by (auto simp: first_min_def)
  have ge: "f32_ge (ds ! k) (ds ! j)" if "k < length ds" for k
  proof -
    from assms(1) that have nb: "\<not> f32_before (ds ! k) m" by (simp add: first_min_def)
    with m have "ds ! k \<noteq> NaN" using f32_before_NaN(2) by metis
    with nb m j show ?thesis by (simp add: f32_ge_def f32_before_def)
  qed
  have lt: "f32_lt (ds ! j) (ds ! k)" if "k < j" for k
    using assms(1) that m j by (auto simp: first_min_def f32_before_def)
  from j ge lt show ?thesis by blast
qed

subsection \<open>Conversions to binary32\<close>

lemma f32_of_real_examples:
  "f32_of_real (31 / 20) = Finite (6501171 / 4194304)"
  "f32_of_real (1 / 20) = Finite (13421773 / 268435456)"
  "f32_of_real 16777217 = Finite 16777216"
  "f32_of_real (2 ^ 128 - 2 ^ 103) = PosInf"
  "f32_of_real (- (2 ^ 128 - 2 ^ 103 - 1)) = Finite (- (2 ^ 128 - 2 ^ 104))"
  "f32_of_real (3 / 2 ^ 150) = Finite (1 / 2 ^ 148)"
  by code_simp+

subsection \<open>Rounding\<close>

lemma round_half_even_lower: "\<lfloor>x\<rfloor> \<le> round_half_even x"
  by (simp add: round_half_even_def Let_def)

lemma round_half_even_upper: "x \<le> of_int n \<Longrightarrow> round_half_even x \<le> n"
proof -
  assume a: "x \<le> of_int n"
  have "\<lfloor>x\<rfloor> \<le> n" using a by (simp add: floor_le_iff) 
  moreover have "x \<noteq> of_int \<lfloor>x\<rfloor> \<Longrightarrow> \<lfloor>x\<rfloor> + 1 \<le> n"
    using a by (metis floor_less_iff less_eq_real_def of_int_floor_le zless_imp_add1_zle order.strict_trans1 of_int_less_iff order_less_le)
  moreover have "x = of_int \<lfloor>x\<rfloor> \<Longrightarrow> round_half_even x = \<lfloor>x\<rfloor>"
    by (simp add: round_half_even_def Let_def)
  moreover have "round_half_even x \<le> \<lfloor>x\<rfloor> + 1"
    by (simp add: round_half_even_def Let_def)
  ultimately show ?thesis by fastforce
qed

lemma floorlog_255: "floorlog 2 255 = 8"
  by code_simp

lemma f32_div_255_range:
  assumes "a \<le> 255"
  shows "0 \<le> f32_div a 255 \<and> f32_div a 255 \<le> 1"
proof (cases "a = 0")
  case True
  then show ?thesis by (simp add: f32_div_def)
next
  case False
  define k where "k = int (floorlog 2 a) - int (floorlog 2 255)"
  define e where "e = (if real 255 * 2 powi k \<le> real a then k else k - 1)"
  define x where "x = real a / real 255 * 2 powi (23 - e)"
  have "floorlog 2 a \<le> 8"
    using floorlog_mono [OF assms, of 2] by (simp add: floorlog_255)
  then have "k \<le> 0" by (simp add: k_def floorlog_255)
  then have e: "e \<le> 0" by (simp add: e_def)
  then have pw: "(2::real) powi (23 - e) = of_int (2 ^ nat (23 - e))"
    by (simp add: power_int_def)
  have inv: "(2::real) powi (e - 23) * 2 powi (23 - e) = 1"
    by (simp flip: power_int_add)
  have pos: "0 < (2::real) powi (e - 23)" by simp
  have x0: "0 \<le> x" by (simp add: x_def)
  have q1: "real a / real 255 \<le> 1" using assms by simp
  have "real a / real 255 * 2 powi (23 - e) \<le> 1 * 2 powi (23 - e)"
    by (rule mult_right_mono [OF q1]) simp
  then have "x \<le> 2 powi (23 - e)"
    by (simp only: x_def mult_1)
  then have up: "round_half_even x \<le> 2 ^ nat (23 - e)"
    by (intro round_half_even_upper) (simp add: pw)
  have lo: "0 \<le> round_half_even x"
    using round_half_even_lower [of x] x0 by (smt (verit) zero_le_floor)
  have val: "f32_div a 255 = of_int (round_half_even x) * 2 powi (e - 23)"
    using False by (simp add: f32_div_def Let_def k_def e_def x_def)
  have "real_of_int (round_half_even x) \<le> real_of_int (2 ^ nat (23 - e))"
    using up by (simp only: of_int_le_iff)
  then have up': "real_of_int (round_half_even x) \<le> 2 powi (23 - e)"
    by (simp only: pw)
  have "of_int (round_half_even x) * 2 powi (e - 23) \<le> (2::real) powi (23 - e) * 2 powi (e - 23)"
    by (rule mult_right_mono [OF up']) simp
  then have "f32_div a 255 \<le> 1" using inv by (simp add: val mult.commute)
  moreover have "0 \<le> f32_div a 255" using lo pos by (simp add: val)
  ultimately show ?thesis by simp
qed

lemma normalize_px_range: "0 \<le> normalize_px b \<and> normalize_px b \<le> 1"
proof -
  have "unat b \<le> 255" using unsigned_less [of b, where 'a = nat] by simp
  then show ?thesis unfolding normalize_px_def by (rule f32_div_255_range)
qed

lemma round_half_even_near: "\<bar>of_int (round_half_even x) - x\<bar> \<le> 1 / 2"
  unfolding round_half_even_def Let_def by (auto simp: abs_if) linarith+

lemma f32_div_255_near:
  assumes "a \<le> 255"
  shows "\<bar>f32_div a 255 - real a / 255\<bar> \<le> 1 / 2 ^ 24"
proof (cases "a = 0")
  case True
  then show ?thesis by (simp add: f32_div_def)
next
  case False
  define k where "k = int (floorlog 2 a) - int (floorlog 2 255)"
  define e where "e = (if real 255 * 2 powi k \<le> real a then k else k - 1)"
  define x where "x = real a / real 255 * 2 powi (23 - e)"
  have "floorlog 2 a \<le> 8"
    using floorlog_mono [OF assms, of 2] by (simp add: floorlog_255)
  then have "k \<le> 0" by (simp add: k_def floorlog_255)
  then have e: "e \<le> 0" by (simp add: e_def)
  have inv: "(2::real) powi (23 - e) * 2 powi (e - 23) = 1"
    by (simp flip: power_int_add)
  have pos: "0 \<le> (2::real) powi (e - 23)" by simp
  have small: "(2::real) powi (e - 23) \<le> 2 powi (- 23)"
    using e by (intro power_int_increasing) simp_all
  have val: "f32_div a 255 = of_int (round_half_even x) * 2 powi (e - 23)"
    using False by (simp add: f32_div_def Let_def k_def e_def x_def)
  have q: "real a / 255 = x * 2 powi (e - 23)"
    using inv by (simp add: x_def mult.assoc)
  have "f32_div a 255 - real a / 255 = (of_int (round_half_even x) - x) * 2 powi (e - 23)"
    by (simp only: val q left_diff_distrib)
  then have "\<bar>f32_div a 255 - real a / 255\<bar> = \<bar>of_int (round_half_even x) - x\<bar> * 2 powi (e - 23)"
    using pos by (simp only: abs_mult abs_of_nonneg)
  also have "\<dots> \<le> 1 / 2 * 2 powi (e - 23)"
    by (rule mult_right_mono [OF round_half_even_near pos])
  also have "\<dots> \<le> 1 / 2 * 2 powi (- 23)"
    using small by simp
  also have "\<dots> = 1 / 2 ^ 24"
    by (simp add: power_int_minus field_simps)
  finally show ?thesis .
qed

lemma normalize_px_0: "normalize_px 0 = 0"
  by (simp add: normalize_px_def f32_div_def)

lemma normalize_px_255: "normalize_px 255 = 1"
  by code_simp


section \<open>Device selection\<close>

text \<open>
  C8. With \<^verbatim>\<open>device="cuda"\<close> the function raises NotImplementedError for every
  backend, path, timestamp list and tolerance, and no call to torchvision has been made:
  the event list is empty, so no stream was opened and nothing was decoded on the CPU.
\<close>

theorem decode_cuda_not_implemented:
  "decode_video_frames_torchvision vio video_path timestamps tolerance_s ''cuda''
     = ([], Inl (NotImplementedError []))"
  by (simp add: decode_video_frames_torchvision_def)

text \<open>
  C10. Every device string other than \<^verbatim>\<open>"cpu"\<close> and \<^verbatim>\<open>"cuda"\<close> raises
  ValueError carrying that string, with an empty event list: no stream was opened.
\<close>

theorem decode_unknown_device_value_error:
  "device \<noteq> ''cpu'' \<Longrightarrow> device \<noteq> ''cuda'' \<Longrightarrow>
     decode_video_frames_torchvision vio video_path timestamps tolerance_s device
       = ([], Inl (ValueError device))"
  by (simp add: decode_video_frames_torchvision_def)

theorem decode_unknown_device_value_error_witness:
  "''tpu'' \<noteq> ''cpu'' \<and> ''tpu'' \<noteq> ''cuda'' \<and>
   decode_video_frames_torchvision (\<lambda>p. Inl ResourceError) ''videos/episode_0.mp4'' [0] (1 / 10) ''tpu''
     = ([], Inl (ValueError ''tpu''))"
  using decode_unknown_device_value_error
    [of "''tpu''" "\<lambda>p. Inl ResourceError" "''videos/episode_0.mp4''" "[0]" "1 / 10"]
  by simp

section \<open>The scan loop\<close>

text \<open>
  C5. Started on the frames that the reader yields, the scan loop records the timestamp and
  the buffer of every frame it pulls, and it pulls exactly the frames whose timestamp is
  below the last requested timestamp followed by the first frame at or after it (that frame
  included). When no frame reaches the last requested timestamp, every frame of the stream
  is recorded: the loop never stops earlier.
\<close>

theorem scan_stops_at_last_requested:
  "scan_frames last_ts fs ([], []) =
     (map data (takeWhile (\<lambda>f. pts f < last_ts) fs @ take 1 (dropWhile (\<lambda>f. pts f < last_ts) fs)),
      map pts (takeWhile (\<lambda>f. pts f < last_ts) fs @ take 1 (dropWhile (\<lambda>f. pts f < last_ts) fs)))"
  using scan_frames_acc [of last_ts fs "[]" "[]"] by (simp add: scan_window_def)

section \<open>Matching within the tolerance\<close>

text \<open>
  C3, as the code has it. For a non-empty list of requests, on a stream that opens and
  whose seek to the first request yields at least one frame, the call either returns
  exactly one frame per request, every request's least binary32 distance to a loaded
  timestamp being strictly below the tolerance rounded to binary32, or it fails as a
  whole with the tolerance assertion. The assertion message carries the violating least
  distances, in request order, and the tolerance. There is no partial result.
\<close>

theorem decode_all_or_nothing:
  assumes "vio video_path = Inr reader"
    and "timestamps \<noteq> []"
    and "reader (hd timestamps) = Inr fs"
    and "fs \<noteq> []"
  shows "(let loaded_ts = map pts (scan_window (last timestamps) fs);
              res = snd (decode_video_frames_torchvision vio video_path timestamps tol ''cpu'');
              tol32 = f32_of_real tol
          in (\<exists>out. res = Inr out \<and> length out = length timestamps \<and>
                     (\<forall>q \<in> set timestamps. f32_lt (min_dist32 q loaded_ts) tol32))
           \<or> (res = Inl (AssertionError
                       (Some (filter (\<lambda>m. \<not> f32_lt m tol32)
                                (map (\<lambda>q. min_dist32 q loaded_ts) timestamps), tol)))
              \<and> (\<exists>q \<in> set timestamps. \<not> f32_lt (min_dist32 q loaded_ts) tol32)))"
proof -
  obtain first_ts rest where ts: "timestamps = first_ts # rest"
    using assms(2) by (cases timestamps) auto
  let ?lts = "map pts (scan_window (last timestamps) fs)"
  let ?lfs = "map data (scan_window (last timestamps) fs)"
  have ne: "?lts \<noteq> []" using assms(4) by (simp add: scan_window_Nil_iff)
  have res: "snd (decode_video_frames_torchvision vio video_path timestamps tol ''cpu'')
               = match_frames timestamps tol ?lfs ?lts"
    using decode_cpu_seeked [of vio video_path reader first_ts fs rest tol] assms(1,3) ts by simp
  from match_frames_cases [OF ne, of timestamps tol ?lfs]
  obtain idxs where idxs: "length idxs = length timestamps"
    "match_frames timestamps tol ?lfs ?lts =
       (if \<forall>q \<in> set timestamps. f32_lt (min_dist32 q ?lts) (f32_of_real tol)
        then Inr (map (\<lambda>j. normalize (?lfs ! j)) idxs)
        else Inl (AssertionError
               (Some (filter (\<lambda>m. \<not> f32_lt m (f32_of_real tol))
                        (map (\<lambda>q. min_dist32 q ?lts) timestamps), tol))))"
    by blast
  show ?thesis
  proof (cases "\<forall>q \<in> set timestamps. f32_lt (min_dist32 q ?lts) (f32_of_real tol)")
    case True
    with res idxs show ?thesis by (simp add: Let_def)
  next
    case False
    with res idxs show ?thesis by (simp add: Let_def)
  qed
qed

theorem decode_all_or_nothing_witness:
  "open_videos demo_files demo_path = Inr (seek_video demo_video) \<and>
   [1 / 4, 1 :: real] \<noteq> [] \<and>
   seek_video demo_video (hd [1 / 4, 1]) = Inr demo_frames \<and>
   demo_frames \<noteq> [] \<and>
   (let loaded_ts = map pts (scan_window (last [1 / 4, 1]) demo_frames);
        res = snd (decode_video_frames_torchvision (open_videos demo_files) demo_path [1 / 4, 1] (3 / 10) ''cpu'');
        tol32 = f32_of_real (3 / 10)
    in (\<exists>out. res = Inr out \<and> length out = length [1 / 4, 1 :: real] \<and>
               (\<forall>q \<in> set [1 / 4, 1]. f32_lt (min_dist32 q loaded_ts) tol32))
     \<or> (res = Inl (AssertionError
                 (Some (filter (\<lambda>m. \<not> f32_lt m tol32)
                          (map (\<lambda>q. min_dist32 q loaded_ts) [1 / 4, 1]), 3 / 10)))
        \<and> (\<exists>q \<in> set [1 / 4, 1]. \<not> f32_lt (min_dist32 q loaded_ts) tol32)))"
proof -
  have h1: "open_videos demo_files demo_path = Inr (seek_video demo_video)"
    by (simp add: open_videos_def demo_files_def)
  have h2: "[1 / 4, 1 :: real] \<noteq> []" by simp
  have h3: "seek_video demo_video (hd [1 / 4, 1]) = Inr demo_frames"
    by (simp add: seek_video_def demo_video_def demo_frames_def)
  have h4: "demo_frames \<noteq> []" by (simp add: demo_frames_def demo_video_def)
  from h1 h2 h3 h4 decode_all_or_nothing [of "open_videos demo_files" demo_path "seek_video demo_video"
      "[1 / 4, 1]" demo_frames "3 / 10", OF h1 h2 h3 h4]
  show ?thesis by (intro conjI)
qed

text \<open>
  C3 as stated fails in two ways. It asks for the violating timestamps in the error, and
  the message is built from \<^verbatim>\<open>min_[~is_within_tol]\<close> only: the requests \<open>5/8\<close> and \<open>7/8\<close>
  both lie \<open>1/8\<close> from a frame of the demo video and fail a tolerance of \<open>1/10\<close> with the
  same error, which names neither timestamp. And it measures the exact distance: the
  request \<open>9/8 + 2\<^sup>-\<^sup>2\<^sup>5\<close> lies exactly the tolerance \<open>1/8 + 2\<^sup>-\<^sup>2\<^sup>5\<close> from the nearest frame (at
  1 second) and no nearer to any other, yet the frame is returned, because the request is
  rounded to \<open>9/8\<close> in binary32.
\<close>

theorem tolerance_error_omits_timestamps:
  "snd (decode_video_frames_torchvision (open_videos demo_files) demo_path [5 / 8] (1 / 10) ''cpu'')
     = Inl (AssertionError (Some ([Finite (1 / 8)], 1 / 10))) \<and>
   snd (decode_video_frames_torchvision (open_videos demo_files) demo_path [7 / 8] (1 / 10) ''cpu'')
     = Inl (AssertionError (Some ([Finite (1 / 8)], 1 / 10))) \<and>
   decode_video_frames_torchvision (open_videos demo_files) demo_path
       [9 / 8 + 1 / 2 ^ 25] (1 / 8 + 1 / 2 ^ 25) ''cpu''
     = ([SetVideoBackend ''pyav'', OpenReader demo_path, Seek (9 / 8 + 1 / 2 ^ 25),
         ReadFrame 0, ReadFrame (1 / 2), ReadFrame 1, ReadFrame (3 / 2)],
        Inr [[15790321 / 134217728, 10526881 / 67108864]]) \<and>
   \<not> \<bar>(9 / 8 + 1 / 2 ^ 25) - 0\<bar> < (1 / 8 + 1 / 2 ^ 25 :: real) \<and>
   \<not> \<bar>(9 / 8 + 1 / 2 ^ 25) - 1 / 2\<bar> < (1 / 8 + 1 / 2 ^ 25 :: real) \<and>
   \<not> \<bar>(9 / 8 + 1 / 2 ^ 25) - 1\<bar> < (1 / 8 + 1 / 2 ^ 25 :: real) \<and>
   \<not> \<bar>(9 / 8 + 1 / 2 ^ 25) - 3 / 2\<bar> < (1 / 8 + 1 / 2 ^ 25 :: real)"
  by code_simp

section \<open>Selection of the nearest frame\<close>

text \<open>
  C6, as the code has it. When the call returns, the frame returned for each request is
  the normalised buffer of a loaded frame whose binary32 distance to the request is least
  among all loaded frames, and every frame loaded before it is strictly farther in that
  distance: among several frames at the least binary32 distance the earliest loaded one
  is taken.
\<close>

theorem decode_selects_first_nearest:
  assumes "vio video_path = Inr reader"
    and "reader (hd timestamps) = Inr fs"
    and "decode_video_frames_torchvision vio video_path timestamps tol ''cpu'' = (tr, Inr out)"
  shows "(let loaded = scan_window (last timestamps) fs
          in \<exists>idxs. length idxs = length timestamps \<and>
               out = map (\<lambda>j. normalize (data (loaded ! j))) idxs \<and>
               (\<forall>i < length timestamps.
                  idxs ! i < length loaded \<and>
                  (\<forall>k < length loaded.
                     f32_ge (dist32 (timestamps ! i) (pts (loaded ! k)))
                            (dist32 (timestamps ! i) (pts (loaded ! (idxs ! i))))) \<and>
                  (\<forall>k < idxs ! i.
                     f32_lt (dist32 (timestamps ! i) (pts (loaded ! (idxs ! i))))
                            (dist32 (timestamps ! i) (pts (loaded ! k))))))"
proof -
  have tne: "timestamps \<noteq> []"
    using assms(1,3) by (auto simp: decode_video_frames_torchvision_def)
  then obtain first_ts rest where ts: "timestamps = first_ts # rest"
    by (cases timestamps) auto
  let ?loaded = "scan_window (last timestamps) fs"
  let ?lts = "map pts ?loaded"
  let ?lfs = "map data ?loaded"
  have res: "match_frames timestamps tol ?lfs ?lts = Inr out"
    using decode_cpu_seeked [of vio video_path reader first_ts fs rest tol] assms ts by simp
  have ne: "?lts \<noteq> []"
  proof
    assume "?lts = []"
    with res tne min_dim1_empty_row [of timestamps] show False
      by (simp add: match_frames_def)
  qed
  from match_frames_cases [OF ne, of timestamps tol ?lfs]
  obtain idxs where idxs: "length idxs = length timestamps"
    "\<forall>i < length timestamps. first_min (map (dist32 (timestamps ! i)) ?lts)
                                (min_dist32 (timestamps ! i) ?lts) (idxs ! i)"
    "match_frames timestamps tol ?lfs ?lts =
       (if \<forall>q \<in> set timestamps. f32_lt (min_dist32 q ?lts) (f32_of_real tol)
        then Inr (map (\<lambda>j. normalize (?lfs ! j)) idxs)
        else Inl (AssertionError
               (Some (filter (\<lambda>m. \<not> f32_lt m (f32_of_real tol))
                        (map (\<lambda>q. min_dist32 q ?lts) timestamps), tol))))"
    by blast
  from res idxs(3) have within: "\<forall>q \<in> set timestamps. f32_lt (min_dist32 q ?lts) (f32_of_real tol)"
    by (auto split: if_splits)
  have sel0: "idxs ! i < length (map (dist32 (timestamps ! i)) ?lts) \<and>
      (\<forall>k < length (map (dist32 (timestamps ! i)) ?lts).
         f32_ge (map (dist32 (timestamps ! i)) ?lts ! k)
                (map (dist32 (timestamps ! i)) ?lts ! (idxs ! i))) \<and>
      (\<forall>k < idxs ! i.
         f32_lt (map (dist32 (timestamps ! i)) ?lts ! (idxs ! i))
                (map (dist32 (timestamps ! i)) ?lts ! k))"
    if "i < length timestamps" for i
  proof -
    from idxs(2) that have f: "first_min (map (dist32 (timestamps ! i)) ?lts)
                                (min_dist32 (timestamps ! i) ?lts) (idxs ! i)" by blast
    from within that have w: "f32_lt (min_dist32 (timestamps ! i) ?lts) (f32_of_real tol)"
      by simp
    from first_min_selected [OF f w] show ?thesis .
  qed
  have inrange: "\<forall>i < length timestamps. idxs ! i < length ?loaded"
    using sel0 by simp
  have out1: "out = map (\<lambda>j. normalize (?lfs ! j)) idxs"
    using res idxs(3) by (simp split: if_splits)
  have out2: "out = map (\<lambda>j. normalize (data (?loaded ! j))) idxs"
    unfolding out1 using inrange idxs(1)
    by (auto simp: list_eq_iff_nth_eq)
  have sel: "\<forall>i < length timestamps.
      idxs ! i < length ?loaded \<and>
      (\<forall>k < length ?loaded.
         f32_ge (dist32 (timestamps ! i) (pts (?loaded ! k)))
                (dist32 (timestamps ! i) (pts (?loaded ! (idxs ! i))))) \<and>
      (\<forall>k < idxs ! i.
         f32_lt (dist32 (timestamps ! i) (pts (?loaded ! (idxs ! i))))
                (dist32 (timestamps ! i) (pts (?loaded ! k))))"
  proof (intro allI impI)
    fix i assume i: "i < length timestamps"
    from sel0 [OF i]
    show "idxs ! i < length ?loaded \<and>
      (\<forall>k < length ?loaded.
         f32_ge (dist32 (timestamps ! i) (pts (?loaded ! k)))
                (dist32 (timestamps ! i) (pts (?loaded ! (idxs ! i))))) \<and>
      (\<forall>k < idxs ! i.
         f32_lt (dist32 (timestamps ! i) (pts (?loaded ! (idxs ! i))))
                (dist32 (timestamps ! i) (pts (?loaded ! k))))"
      by auto
  qed
  from idxs(1) out2 sel show ?thesis by (simp only: Let_def) blast
qed

theorem decode_selects_first_nearest_witness:
  "open_videos demo_files demo_path = Inr (seek_video demo_video) \<and>
   seek_video demo_video (hd [1 / 4, 1]) = Inr demo_frames \<and>
   decode_video_frames_torchvision (open_videos demo_files) demo_path [1 / 4, 1] (3 / 10) ''cpu''
     = ([SetVideoBackend ''pyav'', OpenReader demo_path, Seek (1 / 4),
         ReadFrame 0, ReadFrame (1 / 2), ReadFrame 1],
        Inr [[0, 1], [15790321 / 134217728, 10526881 / 67108864]]) \<and>
   (let loaded = scan_window (last [1 / 4, 1]) demo_frames
    in \<exists>idxs. length idxs = length [1 / 4, 1 :: real] \<and>
         [[0, 1], [15790321 / 134217728, 10526881 / 67108864]]
           = map (\<lambda>j. normalize (data (loaded ! j))) idxs \<and>
         (\<forall>i < length [1 / 4, 1 :: real].
            idxs ! i < length loaded \<and>
            (\<forall>k < length loaded.
               f32_ge (dist32 ([1 / 4, 1] ! i) (pts (loaded ! k)))
                      (dist32 ([1 / 4, 1] ! i) (pts (loaded ! (idxs ! i))))) \<and>
            (\<forall>k < idxs ! i.
               f32_lt (dist32 ([1 / 4, 1] ! i) (pts (loaded ! (idxs ! i))))
                      (dist32 ([1 / 4, 1] ! i) (pts (loaded ! k))))))"
proof -
  have h1: "open_videos demo_files demo_path = Inr (seek_video demo_video)"
    by (simp add: open_videos_def demo_files_def)
  have h2: "seek_video demo_video (hd [1 / 4, 1]) = Inr demo_frames"
    by (simp add: seek_video_def demo_video_def demo_frames_def)
  have h3: "decode_video_frames_torchvision (open_videos demo_files) demo_path [1 / 4, 1] (3 / 10) ''cpu''
     = ([SetVideoBackend ''pyav'', OpenReader demo_path, Seek (1 / 4),
         ReadFrame 0, ReadFrame (1 / 2), ReadFrame 1],
        Inr [[0, 1], [15790321 / 134217728, 10526881 / 67108864]])"
    by code_simp
  from h1 h2 h3
    decode_selects_first_nearest [of "open_videos demo_files" demo_path "seek_video demo_video"
      "[1 / 4, 1]" demo_frames "3 / 10" _ _, OF h1 h2 h3]
  show ?thesis by (intro conjI)
qed

text \<open>
  C6 as stated measures the exact distance. The request \<open>1/4 + 2\<^sup>-\<^sup>3\<^sup>0\<close> is strictly nearer
  to the frame at \<open>1/2\<close> than to the frame at \<open>0\<close>; in binary32 the request is \<open>1/4\<close>, both
  distances are \<open>1/4\<close>, and the frame at \<open>0\<close> (buffer \<open>[0, 255]\<close>) is returned.
\<close>

theorem rounded_request_selects_farther_frame:
  "decode_video_frames_torchvision (open_videos demo_files) demo_path
       [1 / 4 + 1 / 2 ^ 30] (3 / 10) ''cpu''
     = ([SetVideoBackend ''pyav'', OpenReader demo_path, Seek (1 / 4 + 1 / 2 ^ 30),
         ReadFrame 0, ReadFrame (1 / 2)],
        Inr [normalize [0, 255]]) \<and>
   normalize [0, 255] \<noteq> normalize [10, 20] \<and>
   \<bar>(1 / 4 + 1 / 2 ^ 30) - 1 / 2\<bar> < \<bar>(1 / 4 + 1 / 2 ^ 30) - (0 :: real)\<bar>"
  by code_simp

section \<open>Normalisation\<close>

text \<open>
  C7. Normalising an 8-bit buffer keeps its length and divides every entry by 255 in
  binary32: each output lies in the interval from 0 to 1 and within \<open>2\<^sup>-\<^sup>2\<^sup>4\<close> of the exact
  quotient, the input 0 gives exactly 0 and the input 255 gives exactly 1.
\<close>

theorem normalize_unit_interval:
  "length (normalize buf) = length buf \<and>
   (\<forall>i < length buf.
      0 \<le> normalize buf ! i \<and> normalize buf ! i \<le> 1 \<and>
      \<bar>normalize buf ! i - real (unat (buf ! i)) / 255\<bar> \<le> 1 / 2 ^ 24 \<and>
      (buf ! i = 0 \<longrightarrow> normalize buf ! i = 0) \<and>
      (buf ! i = 255 \<longrightarrow> normalize buf ! i = 1))"
proof -
  have "unat b \<le> 255" for b :: "8 word"
    using unsigned_less [of b, where 'a = nat] by simp
  then have "\<bar>normalize_px b - real (unat b) / 255\<bar> \<le> 1 / 2 ^ 24" for b
    unfolding normalize_px_def by (rule f32_div_255_near)
  then show ?thesis
    using normalize_px_range normalize_px_0 normalize_px_255
    by (simp add: normalize_def)
qed

theorem normalize_unit_interval_witness:
  "length (normalize [0, 128, 255]) = 3 \<and>
   normalize [0, 128, 255] ! 0 = 0 \<and>
   0 \<le> normalize [0, 128, 255] ! 1 \<and> normalize [0, 128, 255] ! 1 \<le> 1 \<and>
   \<bar>normalize [0, 128, 255] ! 1 - 128 / 255\<bar> \<le> 1 / 2 ^ 24 \<and>
   normalize [0, 128, 255] ! 2 = 1"
proof -
  note t = normalize_unit_interval [of "[0, 128, 255]"]
  from t have len: "length (normalize [0, 128, 255]) = 3" by simp
  from t have a: "\<forall>i < 3.
      0 \<le> normalize [0, 128, 255] ! i \<and> normalize [0, 128, 255] ! i \<le> 1 \<and>
      \<bar>normalize [0, 128, 255] ! i - real (unat ([0, 128, 255 :: 8 word] ! i)) / 255\<bar> \<le> 1 / 2 ^ 24 \<and>
      ([0, 128, 255 :: 8 word] ! i = 0 \<longrightarrow> normalize [0, 128, 255] ! i = 0) \<and>
      ([0, 128, 255 :: 8 word] ! i = 255 \<longrightarrow> normalize [0, 128, 255] ! i = 1)"
    by simp
  from a [rule_format, of 0] have z: "normalize [0, 128, 255] ! 0 = 0" by simp
  from a [rule_format, of 1] have m: "0 \<le> normalize [0, 128, 255] ! 1 \<and> normalize [0, 128, 255] ! 1 \<le> 1 \<and>
      \<bar>normalize [0, 128, 255] ! 1 - 128 / 255\<bar> \<le> 1 / 2 ^ 24" by simp
  from a [rule_format, of 2] have o: "normalize [0, 128, 255] ! 2 = 1" by simp
  from len z m o show ?thesis by blast
qed

section \<open>Empty request list\<close>

text \<open>
  C2, as the code has it. With an empty list of requested timestamps the call never
  returns a result. On the CPU device and a stream that opens it raises IndexError where
  \<^verbatim>\<open>timestamps[0]\<close> is read: the stream has been opened, no seek has been made.
\<close>

theorem decode_empty_timestamps_index_error:
  "(vio video_path = Inr reader \<longrightarrow>
      decode_video_frames_torchvision vio video_path [] tol ''cpu''
        = ([SetVideoBackend ''pyav'', OpenReader video_path], Inl IndexError)) \<and>
   snd (decode_video_frames_torchvision vio video_path [] tol device) \<noteq> Inr out"
  by (auto simp: decode_video_frames_torchvision_def Let_def split: sum.splits)

theorem decode_empty_timestamps_index_error_witness:
  "open_videos demo_files demo_path = Inr (seek_video demo_video) \<and>
   decode_video_frames_torchvision (open_videos demo_files) demo_path [] (1 / 10) ''cpu''
     = ([SetVideoBackend ''pyav'', OpenReader demo_path], Inl IndexError) \<and>
   snd (decode_video_frames_torchvision (open_videos demo_files) demo_path [] (1 / 10) ''cpu'') \<noteq> Inr []"
proof -
  have h: "open_videos demo_files demo_path = Inr (seek_video demo_video)"
    by (simp add: open_videos_def demo_files_def)
  from decode_empty_timestamps_index_error
    [of "open_videos demo_files" demo_path "seek_video demo_video" "1 / 10" "''cpu''" "[]"] h
  show ?thesis by blast
qed

text \<open>
  The empty request on the demo video: IndexError, not an empty result.
\<close>

theorem decode_empty_timestamps_raises:
  "decode_video_frames_torchvision (open_videos demo_files) demo_path [] (1 / 10) ''cpu''
     = ([SetVideoBackend ''pyav'', OpenReader demo_path], Inl IndexError)"
  by code_simp

section \<open>Requests outside the stream\<close>

text \<open>
  C4, as the code has it. Only the first requested timestamp is passed to
  \<^verbatim>\<open>reader.seek\<close>. With the reader of the specification, a first request outside the
  stream bounds fails with SeekError at the seek step: the events end with the seek and no
  frame has been read.
\<close>

theorem seek_error_on_first_timestamp:
  "files video_path = Some v \<Longrightarrow> first_ts < 0 \<or> duration v < first_ts \<Longrightarrow>
     decode_video_frames_torchvision (open_videos files) video_path (first_ts # rest) tol ''cpu''
       = ([SetVideoBackend ''pyav'', OpenReader video_path, Seek first_ts], Inl SeekError)"
  by (simp add: decode_seek_failed open_videos_def seek_video_def)

theorem seek_error_on_first_timestamp_witness:
  "demo_files demo_path = Some demo_video \<and>
   ((7 / 2 :: real) < 0 \<or> duration demo_video < 7 / 2) \<and>
   decode_video_frames_torchvision (open_videos demo_files) demo_path [7 / 2, 4] (3 / 50) ''cpu''
     = ([SetVideoBackend ''pyav'', OpenReader demo_path, Seek (7 / 2)], Inl SeekError)"
proof -
  have h1: "demo_files demo_path = Some demo_video" by (simp add: demo_files_def)
  have h2: "(7 / 2 :: real) < 0 \<or> duration demo_video < 7 / 2" by (simp add: demo_video_def)
  from h1 h2 seek_error_on_first_timestamp [of demo_files demo_path demo_video "7 / 2" "[4]" "3 / 50", OF h1 h2]
  show ?thesis by (intro conjI)
qed

text \<open>
  C4 as stated covers every requested timestamp. A later request beyond the end of the
  stream is never passed to seek: on the demo video (2 seconds long) the requests \<open>0\<close> and
  \<open>7/2\<close> are scanned to the end of the stream and fail the tolerance assertion.
\<close>

theorem late_request_beyond_stream_fails_tolerance:
  "duration demo_video < 7 / 2 \<and>
   decode_video_frames_torchvision (open_videos demo_files) demo_path [0, 7 / 2] (3 / 50) ''cpu''
     = ([SetVideoBackend ''pyav'', OpenReader demo_path, Seek 0,
         ReadFrame 0, ReadFrame (1 / 2), ReadFrame 1, ReadFrame (3 / 2)],
        Inl (AssertionError (Some ([Finite 2], 3 / 50))))"
  by code_simp

section \<open>Assembling an item\<close>

text \<open>
  C9 describes the intended result. The scalar branch does it: a scalar reference is
  replaced by the single tensor decoded from the stored path joined to the parent of
  \<^verbatim>\<open>videos_dir\<close>. The sequence branch does not: the same reference as a sequence of length
  one is not replaced by a sequence of one tensor, the guard \<^verbatim>\<open>len(set(paths)) == 1\<close>
  raises NotImplementedError before anything is decoded.
\<close>

theorem load_from_videos_single_reference_sequence:
  "load_from_videos (open_videos demo_files) demo_item_scalar [''observation.image'']
      demo_videos_dir (1 / 10)
     = ([SetVideoBackend ''pyav'', OpenReader ''data/videos/episode_0.mp4'', Seek (1 / 2),
         ReadFrame 0, ReadFrame (1 / 2)],
        Inr (demo_item_scalar
              (''observation.image'' \<mapsto> Tensor [10526881 / 268435456, 10526881 / 134217728]))) \<and>
   load_from_videos (open_videos demo_files) demo_item_single [''observation.image'']
      demo_videos_dir (1 / 10)
     = ([], Inl (NotImplementedError ''All video paths are expected to be the same for now.''))"
proof -
  have p: "path_str (joinpath (parent demo_videos_dir) ''videos/episode_0.mp4'') = demo_path"
    by code_simp
  have d: "decode_video_frames_torchvision (open_videos demo_files) demo_path [1 / 2] (1 / 10) ''cpu''
      = ([SetVideoBackend ''pyav'', OpenReader ''data/videos/episode_0.mp4'', Seek (1 / 2),
          ReadFrame 0, ReadFrame (1 / 2)],
         Inr [[10526881 / 268435456, 10526881 / 134217728]])"
    by code_simp
  have scalar: "load_from_videos (open_videos demo_files) demo_item_scalar [''observation.image'']
      demo_videos_dir (1 / 10)
     = ([SetVideoBackend ''pyav'', OpenReader ''data/videos/episode_0.mp4'', Seek (1 / 2),
         ReadFrame 0, ReadFrame (1 / 2)],
        Inr (demo_item_scalar
              (''observation.image'' \<mapsto> Tensor [10526881 / 268435456, 10526881 / 134217728])))"
    by (simp add: load_from_videos_def load_key_def demo_item_scalar_def p d)
  have single: "load_from_videos (open_videos demo_files) demo_item_single [''observation.image'']
      demo_videos_dir (1 / 10)
     = ([], Inl (NotImplementedError ''All video paths are expected to be the same for now.''))"
    by (simp add: load_from_videos_def load_key_def demo_item_single_def)
  from scalar single show ?thesis by (rule conjI)
qed

section \<open>The guard on the video paths\<close>

text \<open>
  C1 describes the intent written in the error message ("All video paths are expected to
  be the same for now"); the guard \<^verbatim>\<open>len(set(paths)) == 1\<close> tests the opposite. Two
  references into the same video raise NotImplementedError before any call to
  torchvision, and two references into different videos raise nothing: the frames of
  both requests are decoded from the video of the first reference and returned.
\<close>

theorem load_from_videos_inverted_path_guard:
  "load_from_videos (open_videos demo_files) demo_item_same [''observation.image'']
      demo_videos_dir (1 / 10)
     = ([], Inl (NotImplementedError ''All video paths are expected to be the same for now.'')) \<and>
   load_from_videos (open_videos demo_files) demo_item_mixed [''observation.image'']
      demo_videos_dir (1 / 10)
     = ([SetVideoBackend ''pyav'', OpenReader ''data/videos/episode_0.mp4'', Seek 0,
         ReadFrame 0, ReadFrame (1 / 2)],
        Inr (demo_item_mixed
              (''observation.image'' \<mapsto>
                 Stacked [[0, 1], [10526881 / 268435456, 10526881 / 134217728]])))"
proof -
  have p: "path_str (joinpath (parent demo_videos_dir) ''videos/episode_0.mp4'') = demo_path"
    by code_simp
  have d: "decode_video_frames_torchvision (open_videos demo_files) demo_path [0, 1 / 2] (1 / 10) ''cpu''
      = ([SetVideoBackend ''pyav'', OpenReader ''data/videos/episode_0.mp4'', Seek 0,
          ReadFrame 0, ReadFrame (1 / 2)],
         Inr [[0, 1], [10526881 / 268435456, 10526881 / 134217728]])"
    by code_simp
  have same: "load_from_videos (open_videos demo_files) demo_item_same [''observation.image'']
      demo_videos_dir (1 / 10)
     = ([], Inl (NotImplementedError ''All video paths are expected to be the same for now.''))"
    by (simp add: load_from_videos_def load_key_def demo_item_same_def)
  have mixed: "load_from_videos (open_videos demo_files) demo_item_mixed [''observation.image'']
      demo_videos_dir (1 / 10)
     = ([SetVideoBackend ''pyav'', OpenReader ''data/videos/episode_0.mp4'', Seek 0,
         ReadFrame 0, ReadFrame (1 / 2)],
        Inr (demo_item_mixed
              (''observation.image'' \<mapsto>
                 Stacked [[0, 1], [10526881 / 268435456, 10526881 / 134217728]])))"
    by (simp add: load_from_videos_def load_key_def demo_item_mixed_def p d)
  from same mixed show ?thesis by (rule conjI)
qed

end
